theory Spec2Isabelle
  imports Main
begin

section \<open>The stdio-to-HTTP proxy \<^verbatim>\<open>mcp-stdio-proxy.py\<close>\<close>

text \<open>
  The program is a Python script: it reads its configuration from the process
  environment, checks the credential, and then runs one \<^verbatim>\<open>while True\<close> loop that reads a
  line of standard input, posts it to the downstream server and prints the reply.

  The script's own statements are modelled below, in the order of the source. What the
  script calls but does not define is a parameter of the model, collected in the record
  \<open>lib\<close>: \<^verbatim>\<open>json.loads\<close>, \<^verbatim>\<open>json.dumps\<close>, \<^verbatim>\<open>str\<close> of a decoded value, \<^verbatim>\<open>int\<close> of a string, the
  encoding of standard output, and \<^verbatim>\<open>session.post\<close>, which is a step of the downstream world
  (a state of any type \<open>'w\<close>).

  Text is a list of characters, a character standing for its code point (the model covers
  code points below 256); standard input is the text that Python reads, after decoding.
  Writes to standard output and to the log file succeed; the timestamp that \<^verbatim>\<open>log\<close> puts
  before each message is left out of the modelled log.
\<close>

subsection \<open>Values of the Python library\<close>

text \<open>
  What \<^verbatim>\<open>json.loads\<close> returns: a dict keeps its items as an association list. The call
  returns a value, raises \<^verbatim>\<open>JSONDecodeError\<close>, or raises another exception: \<^verbatim>\<open>RecursionError\<close> on
  text that is nested too deeply, and a plain \<^verbatim>\<open>ValueError\<close> on an integer of more digits
  than the interpreter converts.
\<close>

datatype pyval =
    PyNone
  | PyBool bool
  | PyInt int
  | PyFloat string
  | PyStr string
  | PyList "pyval list"
  | PyDict "(string \<times> pyval) list"

datatype exc = ValueError | AttributeError | RecursionError

datatype loads_result = Loaded pyval | JSONDecodeError | Other_Error exc

record request =
  url :: string
  data :: string
  headers :: "(string \<times> string) list"
  timeout :: int

text \<open>
  A response: \<open>content\<close> is the body as it was received, a list of bytes, and \<open>resp_text\<close>
  is \<^verbatim>\<open>response.text\<close>, the text that \<^verbatim>\<open>requests\<close> decodes the body to. The script reads the
  text only.
\<close>

record response =
  status_code :: int
  resp_headers :: "string \<rightharpoonup> string"
  content :: string
  resp_text :: string

text \<open>
  \<^verbatim>\<open>session.post\<close> returns a response or raises; the three \<^verbatim>\<open>except\<close> clauses of the loop
  tell a \<^verbatim>\<open>Timeout\<close>, a \<^verbatim>\<open>ConnectionError\<close> that is no \<^verbatim>\<open>Timeout\<close>, and any other
  \<^verbatim>\<open>Exception\<close> apart. Each carries \<^verbatim>\<open>str(e)\<close>. The outcome stands for the whole call
  of lines 92 to 97, the encoding of the line included.
\<close>

datatype post_result =
    Returned response
  | Raised_Timeout string
  | Raised_ConnectionError string
  | Raised_Exception string

record 'w lib =
  json_loads :: "string \<Rightarrow> loads_result"
  json_dumps :: "pyval \<Rightarrow> string"
  py_str :: "pyval \<Rightarrow> string"
  py_int :: "string \<Rightarrow> int option"
  stdout_encode :: "string \<Rightarrow> string"
  session_post :: "'w \<Rightarrow> request \<Rightarrow> post_result \<times> 'w"

text \<open>
  How the process ends: with an exit status, or with an exception that no handler of the
  script catches.
\<close>

datatype ending = Exit nat | Uncaught exc

subsection \<open>String operations\<close>

text \<open>\<^verbatim>\<open>str.isspace\<close> on one character, for code points below 256.\<close>

definition isspace :: "char \<Rightarrow> bool" where
  "isspace c =
     (let n = (of_char c :: nat)
      in (9 \<le> n \<and> n \<le> 13) \<or> (28 \<le> n \<and> n \<le> 32) \<or> n = 133 \<or> n = 160)"

definition strip :: "string \<Rightarrow> string" where
  "strip s = rev (dropWhile isspace (rev (dropWhile isspace s)))"

text \<open>\<^verbatim>\<open>str.lower\<close>, for code points below 256.\<close>

definition lower_char :: "char \<Rightarrow> char" where
  "lower_char c =
     (let n = (of_char c :: nat)
      in if (65 \<le> n \<and> n \<le> 90) \<or> (192 \<le> n \<and> n \<le> 222 \<and> n \<noteq> 215)
         then char_of (n + 32) else c)"

definition lower :: "string \<Rightarrow> string" where
  "lower s = map lower_char s"

text \<open>\<^verbatim>\<open>str\<close> of an integer: a minus sign when it is negative, and its decimal digits.\<close>

function str_int :: "int \<Rightarrow> string" where
  "str_int i =
     (if i < 0 then CHR ''-'' # str_int (- i)
      else if i < 10 then [''0123456789'' ! nat i]
      else str_int (i div 10) @ [''0123456789'' ! nat (i mod 10)])"
  by pat_completeness auto
termination
  by (relation "measure (\<lambda>i. if i < 0 then Suc (nat (- i)) else nat i)") auto

declare str_int.simps [simp del]

text \<open>\<^verbatim>\<open>a in b\<close> on strings: \<open>a\<close> occurs in \<open>b\<close> as a contiguous piece.\<close>

fun contains :: "string \<Rightarrow> string \<Rightarrow> bool" where
  "contains [] a = (a = [])"
| "contains (c # cs) a = (take (length a) (c # cs) = a \<or> contains cs a)"

text \<open>
  \<^verbatim>\<open>sys.stdin.readline()\<close> on the text still unread: the line up to and with its newline
  (the rest of the text when no newline is left, the empty string at the end of input),
  and the text that stays unread.
\<close>

fun readline :: "string \<Rightarrow> string \<times> string" where
  "readline [] = ([], [])"
| "readline (c # cs) =
     (if c = CHR 0x0A then ([c], cs)
      else (case readline cs of (l, r) \<Rightarrow> (c # l, r)))"

subsection \<open>Configuration and state\<close>

record config =
  API_KEY :: string
  HOST :: string
  PORT :: string
  TIMEOUT :: int
  DEBUG :: bool

definition MCP_URL :: "config \<Rightarrow> string" where
  "MCP_URL C = ''http://'' @ HOST C @ '':'' @ PORT C @ ''/mcp/'' @ API_KEY C"

text \<open>
  The state of the running script: the global \<open>mcp_session_id\<close>, the unread standard
  input, the units printed so far (one per \<^verbatim>\<open>print\<close>), the messages written to the log
  file, the downstream world, and the history of the calls of \<^verbatim>\<open>session.post\<close> made so
  far, each with its outcome.
\<close>

record 'w state =
  mcp_session_id :: "string option"
  stdin :: string
  stdout :: "string list"
  log_file :: "string list"
  world :: 'w
  exchanges :: "(request \<times> post_result) list"

definition log :: "config \<Rightarrow> string \<Rightarrow> 'w state \<Rightarrow> 'w state" where
  "log C msg s = (if DEBUG C then s\<lparr>log_file := log_file s @ [msg]\<rparr> else s)"

definition print :: "string \<Rightarrow> 'w state \<Rightarrow> 'w state" where
  "print u s = s\<lparr>stdout := stdout s @ [u]\<rparr>"


text \<open>The dict literal of every synthesized error unit.\<close>

definition error_unit :: "pyval \<Rightarrow> int \<Rightarrow> string \<Rightarrow> pyval" where
  "error_unit rid code msg =
     PyDict [(''jsonrpc'', PyStr ''2.0''), (''id'', rid),
             (''error'', PyDict [(''code'', PyInt code), (''message'', PyStr msg)])]"

subsection \<open>The loop body\<close>

text \<open>
  Lines 76 to 81: \<^verbatim>\<open>json.loads(line)\<close>, then \<^verbatim>\<open>req_json.get("id")\<close>. Only a
  \<^verbatim>\<open>JSONDecodeError\<close> is caught there; \<^verbatim>\<open>get\<close> exists on a dict only, and the
  \<^verbatim>\<open>AttributeError\<close> of any other value, like any other exception of \<^verbatim>\<open>json.loads\<close>, is
  raised outside the \<^verbatim>\<open>try\<close> of the request.
\<close>

definition extract_request_id :: "'w lib \<Rightarrow> string \<Rightarrow> exc + pyval" where
  "extract_request_id L line =
     (case json_loads L line of
        JSONDecodeError \<Rightarrow> Inr PyNone
      | Other_Error e \<Rightarrow> Inl e
      | Loaded v \<Rightarrow>
          (case v of
             PyDict items \<Rightarrow>
               Inr (case map_of items ''id'' of None \<Rightarrow> PyNone | Some x \<Rightarrow> x)
           | _ \<Rightarrow> Inl AttributeError))"

text \<open>Lines 85 to 88: the per-request headers; an empty string is false in Python.\<close>

definition session_headers :: "string option \<Rightarrow> (string \<times> string) list" where
  "session_headers sid =
     (case sid of
        None \<Rightarrow> []
      | Some t \<Rightarrow> if t \<noteq> [] then [(''Mcp-Session-Id'', t)] else [])"

definition build_request :: "config \<Rightarrow> string option \<Rightarrow> string \<Rightarrow> request" where
  "build_request C sid line =
     \<lparr>url = MCP_URL C, data = line, headers = session_headers sid, timeout = TIMEOUT C\<rparr>"

text \<open>Lines 98 to 130: what the script does with a response.\<close>

definition handle_response :: "'w lib \<Rightarrow> config \<Rightarrow> pyval \<Rightarrow> response \<Rightarrow> 'w state \<Rightarrow> 'w state" where
  "handle_response L C request_id r s0 =
     (let s1 = log C (''Got response: '' @ str_int (status_code r)) s0;
          s2 = (case resp_headers r ''Mcp-Session-Id'' of
                  None \<Rightarrow> s1
                | Some v \<Rightarrow> log C (''New session ID: '' @ v) (s1\<lparr>mcp_session_id := Some v\<rparr>));
          response_text = resp_text r;
          s3 = log C (''Response ('' @ str_int (int (length response_text)) @ '' chars): ''
                      @ (if response_text \<noteq> [] then take 200 response_text else ''EMPTY'')
                      @ ''...'') s2
      in if status_code r \<ge> 400 then
           log C ''Error response written to stdout''
             (print (json_dumps L (error_unit request_id (- 32000)
                        (''HTTP '' @ str_int (status_code r) @ '': '' @ response_text)))
                (log C (''HTTP ERROR '' @ str_int (status_code r) @ '': '' @ response_text) s3))
         else if response_text = [] then
           log C ''Skipped empty response (notification ack)'' s3
         else
           log C ''Response written to stdout'' (print response_text s3))"

text \<open>
  Lines 83 to 155: the messages logged before the request (they change the log only), the
  request with the headers of lines 85 to 88, and the handler of each outcome.
\<close>

definition handle_outcome :: "'w lib \<Rightarrow> config \<Rightarrow> pyval \<Rightarrow> post_result \<Rightarrow> 'w state \<Rightarrow> 'w state" where
  "handle_outcome L C request_id res s =
     (case res of
        Returned r \<Rightarrow> handle_response L C request_id r s
      | Raised_Timeout e \<Rightarrow>
          print (json_dumps L (error_unit request_id (- 32000) ''Request timed out''))
            (log C ''Request timed out'' s)
      | Raised_ConnectionError e \<Rightarrow>
          print (json_dumps L (error_unit request_id (- 32000)
                   ''Connection error: Is the WhatsApp MCP server running?''))
            (log C (''Connection error: '' @ e) s)
      | Raised_Exception e \<Rightarrow>
          print (json_dumps L (error_unit request_id (- 32000) e))
            (log C (''Exception: '' @ e) s))"

definition log_request :: "'w lib \<Rightarrow> config \<Rightarrow> pyval \<Rightarrow> string \<Rightarrow> 'w state \<Rightarrow> 'w state" where
  "log_request L C request_id line s0 =
     (let s1 = log C (''Request (id='' @ py_str L request_id @ ''): '' @ take 200 line @ ''...'') s0;
          s2 = (case mcp_session_id s1 of
                  None \<Rightarrow> s1
                | Some t \<Rightarrow> if t \<noteq> [] then log C (''Using session: '' @ t) s1 else s1)
      in log C ''Sending HTTP request...'' s2)"

definition forward :: "'w lib \<Rightarrow> config \<Rightarrow> pyval \<Rightarrow> string \<Rightarrow> 'w state \<Rightarrow> 'w state" where
  "forward L C request_id line s0 =
     (let req = build_request C (mcp_session_id s0) line;
          s3 = log_request L C request_id line s0;
          (res, w) = session_post L (world s3) req;
          s4 = s3\<lparr>world := w, exchanges := exchanges s3 @ [(req, res)]\<rparr>
      in handle_outcome L C request_id res s4)"

text \<open>
  One pass through the body of \<^verbatim>\<open>while True\<close> (lines 62 to 155): the loop is left by
  \<^verbatim>\<open>break\<close>, goes on, or is left by an exception that nothing catches.
\<close>

datatype 'w step = Break "'w state" | Continue "'w state" | Raise exc "'w state"

text \<open>Lines 62 to 64: the line read, and the state after it is read and logged.\<close>

definition read_line :: "config \<Rightarrow> 'w state \<Rightarrow> string \<times> 'w state" where
  "read_line C s0 =
     (let s1 = log C ''Waiting for input...'' s0;
          (line, rest) = readline (stdin s1)
      in (line, log C (''Got line: '' @ str_int (int (length line)) @ '' chars'') (s1\<lparr>stdin := rest\<rparr>)))"

definition loop_body :: "'w lib \<Rightarrow> config \<Rightarrow> 'w state \<Rightarrow> 'w step" where
  "loop_body L C s0 =
     (let (line, s2) = read_line C s0
      in if line = [] then Break (log C ''EOF received, exiting'' s2)
         else if strip line = [] then Continue (log C ''Empty line, continuing'' s2)
         else (case extract_request_id L (strip line) of
                 Inl e \<Rightarrow> Raise e s2
               | Inr request_id \<Rightarrow> Continue (forward L C request_id (strip line) s2)))"

subsection \<open>The loop and the script\<close>

text \<open>
  \<^verbatim>\<open>while True\<close>, and line 157 behind it: after \<^verbatim>\<open>break\<close> the script logs its exit and ends
  with status 0. Every pass that goes on has read a non-empty line, so the unread input
  gets shorter.
\<close>

function while_loop :: "'w lib \<Rightarrow> config \<Rightarrow> 'w state \<Rightarrow> ending \<times> 'w state" where
  "while_loop L C s =
     (case loop_body L C s of
        Break s' \<Rightarrow> (Exit 0, log C ''=== Proxy exiting ==='' s')
      | Continue s' \<Rightarrow> while_loop L C s'
      | Raise e s' \<Rightarrow> (Uncaught e, s'))"
  by pat_completeness auto
termination
proof (relation "measure (\<lambda>(L, C, s). length (stdin s))")
  show "wf (measure (\<lambda>(L :: 'w lib, C :: config, s :: 'w state). length (stdin s)))"
    by simp
next
  fix L :: "'w lib" and C :: config and s s' :: "'w state"
  assume go: "loop_body L C s = Continue s'"
  have le: "length (snd (readline t)) \<le> length t" for t
    by (induction t) (auto split: prod.splits)
  have shorter: "length (snd (readline t)) < length t" if "fst (readline t) \<noteq> []" for t
  proof (cases t)
    case Nil
    with that show ?thesis by simp
  next
    case (Cons c cs)
    with le [of cs] show ?thesis by (auto split: prod.splits)
  qed
  have lg: "stdin (log C m s2) = stdin s2" for m and s2 :: "'w state"
    by (simp add: log_def)
  have pr: "stdin (print u s2) = stdin s2" for u and s2 :: "'w state"
    by (simp add: print_def)
  have hr: "stdin (handle_response L C rid r s2) = stdin s2" for rid r and s2 :: "'w state"
    by (simp add: handle_response_def Let_def lg pr split: option.splits)
  have ho: "stdin (handle_outcome L C rid res s2) = stdin s2" for rid res and s2 :: "'w state"
    by (simp add: handle_outcome_def hr lg pr split: post_result.splits)
  have lr: "stdin (log_request L C rid line s2) = stdin s2" for rid line and s2 :: "'w state"
    by (simp add: log_request_def Let_def lg split: option.splits)
  have same: "stdin (forward L C rid line s2) = stdin s2" for rid line and s2 :: "'w state"
    by (simp add: forward_def Let_def case_prod_beta ho lr)
  have rd: "fst (read_line C s) = fst (readline (stdin s))"
    "stdin (snd (read_line C s)) = snd (readline (stdin s))"
    by (simp_all add: read_line_def Let_def case_prod_beta lg)
  from go have "fst (readline (stdin s)) \<noteq> []" and "stdin s' = snd (readline (stdin s))"
    by (auto simp add: loop_body_def case_prod_beta same lg rd split: if_splits sum.splits)
  then show "((L, C, s'), (L, C, s)) \<in> measure (\<lambda>(L, C, s). length (stdin s))"
    by (simp add: shorter)
qed

declare while_loop.simps [simp del]

text \<open>\<^verbatim>\<open>os.environ.get(name, default)\<close>.\<close>

definition environ_get :: "(string \<rightharpoonup> string) \<Rightarrow> string \<Rightarrow> string \<Rightarrow> string" where
  "environ_get environ name dflt = (case environ name of None \<Rightarrow> dflt | Some v \<Rightarrow> v)"

definition initial_state :: "string \<Rightarrow> 'w \<Rightarrow> 'w state" where
  "initial_state inp w =
     \<lparr>mcp_session_id = None, stdin = inp, stdout = [], log_file = [], world = w,
      exchanges = []\<rparr>"

text \<open>
  Lines 21 to 25, once \<^verbatim>\<open>int\<close> has returned \<open>t\<close> and the credential is \<open>k\<close>: the
  configuration of the run.
\<close>

definition load_config :: "(string \<rightharpoonup> string) \<Rightarrow> string \<Rightarrow> int \<Rightarrow> config" where
  "load_config environ k t =
     \<lparr>API_KEY = k,
      HOST = environ_get environ ''MCP_HOST'' ''localhost'',
      PORT = environ_get environ ''MCP_PORT'' ''8080'',
      TIMEOUT = t,
      DEBUG = (lower (environ_get environ ''MCP_DEBUG'' []) \<in> set [''1'', ''true'', ''yes''])\<rparr>"

text \<open>Lines 50 and 51: the two messages logged before the loop; the URL is masked.\<close>

definition started :: "config \<Rightarrow> 'w state \<Rightarrow> 'w state" where
  "started C s =
     log C (''URL: http://'' @ HOST C @ '':'' @ PORT C @ ''/mcp/***'')
       (log C ''=== Proxy started ==='' s)"

text \<open>
  The script from its first statement (lines 21 to 157), on an environment, the text on
  standard input and the downstream world. \<^verbatim>\<open>int\<close> raises \<^verbatim>\<open>ValueError\<close> at line 24, before
  the check of the credential at line 27; \<^verbatim>\<open>not API_KEY\<close> holds for an unset and for an
  empty credential, and \<^verbatim>\<open>sys.exit(1)\<close> ends the process there.
\<close>

definition main :: "'w lib \<Rightarrow> (string \<rightharpoonup> string) \<Rightarrow> string \<Rightarrow> 'w \<Rightarrow> ending \<times> 'w state" where
  "main L environ inp w =
     (let s0 = initial_state inp w
      in case py_int L (environ_get environ ''MCP_TIMEOUT'' ''30'') of
           None \<Rightarrow> (Uncaught ValueError, s0)
         | Some t \<Rightarrow>
             (case environ ''MCP_API_KEY'' of
                None \<Rightarrow>
                  (Exit 1, print (json_dumps L (error_unit PyNone (- 32600)
                             ''MCP_API_KEY environment variable is required'')) s0)
              | Some k \<Rightarrow>
                  if k = [] then
                    (Exit 1, print (json_dumps L (error_unit PyNone (- 32600)
                               ''MCP_API_KEY environment variable is required'')) s0)
                  else
                    (let C = load_config environ k t
                     in while_loop L C (started C s0))))"

subsection \<open>Reading a step\<close>

text \<open>The state a pass through the loop body ends in, and whether the loop goes on.\<close>

fun after :: "'w step \<Rightarrow> 'w state" where
  "after (Break s) = s"
| "after (Continue s) = s"
| "after (Raise e s) = s"

fun continues :: "'w step \<Rightarrow> bool" where
  "continues (Continue s) = True"
| "continues _ = False"

text \<open>
  An outcome of the request for which the script prints an error unit: an exception, or a
  response with a status of 400 or more.
\<close>

fun reports_failure :: "post_result \<Rightarrow> bool" where
  "reports_failure (Returned r) = (400 \<le> status_code r)"
| "reports_failure _ = True"

subsection \<open>An instance of the library, for concrete runs\<close>

text \<open>
  The concrete runs below need values of the library. \<open>dumps\<close> is \<^verbatim>\<open>json.dumps\<close> with its
  default separators, on values whose strings need no escape; \<open>demo_loads\<close> is \<^verbatim>\<open>json.loads\<close>
  on the lines the runs use (the request \<open>ping\<close>, the JSON array \<^verbatim>\<open>[1]\<close>, and text
  that is no JSON); a reply made by \<open>reply\<close> has a text of ASCII characters, which is its
  body as well; \<open>demo_str\<close> is \<^verbatim>\<open>str\<close> on \<^verbatim>\<open>None\<close>, integers and strings; \<open>demo_int\<close> is
  \<^verbatim>\<open>int\<close> on strings of decimal digits and on strings without any digit. The downstream
  world is a script: the list of the outcomes of the coming requests, and a refused
  connection once the list is used up.
\<close>

definition quoted :: "string \<Rightarrow> string" where
  "quoted t = [CHR 0x22] @ t @ [CHR 0x22]"

fun dumps :: "pyval \<Rightarrow> string"
  and dumps_list :: "pyval list \<Rightarrow> string"
  and dumps_items :: "(string \<times> pyval) list \<Rightarrow> string" where
  "dumps PyNone = ''null''"
| "dumps (PyBool b) = (if b then ''true'' else ''false'')"
| "dumps (PyInt i) = str_int i"
| "dumps (PyFloat r) = r"
| "dumps (PyStr t) = quoted t"
| "dumps (PyList xs) = ''['' @ dumps_list xs @ '']''"
| "dumps (PyDict kvs) = ''{'' @ dumps_items kvs @ ''}''"
| "dumps_list [] = []"
| "dumps_list [x] = dumps x"
| "dumps_list (x # y # ys) = dumps x @ '', '' @ dumps_list (y # ys)"
| "dumps_items [] = []"
| "dumps_items [(k, v)] = quoted k @ '': '' @ dumps v"
| "dumps_items ((k, v) # y # ys) = quoted k @ '': '' @ dumps v @ '', '' @ dumps_items (y # ys)"

definition nl :: string where
  "nl = [CHR 0x0A]"

definition ping :: string where
  \<open>ping = ''{"jsonrpc":"2.0","id":1,"method":"ping"}''\<close>

definition pong :: string where
  \<open>pong = ''{"jsonrpc":"2.0","id":1,"result":{}}''\<close>

definition demo_loads :: "string \<Rightarrow> loads_result" where
  "demo_loads t =
     (if t = ping
      then Loaded (PyDict [(''jsonrpc'', PyStr ''2.0''), (''id'', PyInt 1),
                           (''method'', PyStr ''ping'')])
      else if t = ''[1]'' then Loaded (PyList [PyInt 1])
      else JSONDecodeError)"

definition demo_str :: "pyval \<Rightarrow> string" where
  "demo_str v =
     (case v of PyNone \<Rightarrow> ''None'' | PyInt i \<Rightarrow> str_int i | PyStr t \<Rightarrow> t | _ \<Rightarrow> ''?'')"

definition demo_int :: "string \<Rightarrow> int option" where
  "demo_int t =
     (if t \<noteq> [] \<and> list_all (\<lambda>c. 48 \<le> (of_char c :: nat) \<and> (of_char c :: nat) \<le> 57) t
      then Some (foldl (\<lambda>a c. 10 * a + (int (of_char c) - 48)) 0 t) else None)"

text \<open>UTF-8 of a text of code points below 256: the encoding of standard output.\<close>

definition utf8_char :: "char \<Rightarrow> string" where
  "utf8_char c =
     (let n = (of_char c :: nat)
      in if n < 128 then [c] else [char_of (192 + n div 64), char_of (128 + n mod 64)])"

definition utf8 :: "string \<Rightarrow> string" where
  "utf8 t = concat (map utf8_char t)"

definition demo_post :: "post_result list \<Rightarrow> request \<Rightarrow> post_result \<times> post_result list" where
  "demo_post w q =
     (case w of
        [] \<Rightarrow> (Raised_ConnectionError ''Connection refused'', [])
      | r # rs \<Rightarrow> (r, rs))"

definition demo_lib :: "post_result list lib" where
  "demo_lib = \<lparr>json_loads = demo_loads, json_dumps = dumps, py_str = demo_str,
               py_int = demo_int, stdout_encode = utf8, session_post = demo_post\<rparr>"

definition demo_config :: config where
  "demo_config = \<lparr>API_KEY = ''k3y'', HOST = ''localhost'', PORT = ''8080'', TIMEOUT = 30,
                   DEBUG = False\<rparr>"

definition reply :: "int \<Rightarrow> string \<Rightarrow> response" where
  "reply code body =
     \<lparr>status_code = code, resp_headers = Map.empty, content = body, resp_text = body\<rparr>"

subsection \<open>The session token along a history\<close>

text \<open>
  The held Session Token after one more outcome, in the spec's words: a response that
  carries the session header overwrites the token with the header's value, whatever its
  status; any other outcome leaves the token as it is.
\<close>

definition spec_next_token :: "string option \<Rightarrow> post_result \<Rightarrow> string option" where
  "spec_next_token tok res =
     (case res of
        Returned r \<Rightarrow> (case resp_headers r ''Mcp-Session-Id'' of None \<Rightarrow> tok | Some v \<Rightarrow> Some v)
      | _ \<Rightarrow> tok)"

definition spec_token_after :: "(request \<times> post_result) list \<Rightarrow> string option" where
  "spec_token_after xs = foldl spec_next_token None (map snd xs)"

text \<open>
  A history in which every request carries the headers \<open>hdr\<close> gives for the token held
  when the request is made, the token being \<open>tok\<close> before the first request.
\<close>

fun attached_from ::
  "(string option \<Rightarrow> (string \<times> string) list) \<Rightarrow> string option \<Rightarrow>
     (request \<times> post_result) list \<Rightarrow> bool" where
  "attached_from hdr tok [] = True"
| "attached_from hdr tok ((q, res) # xs) =
     (headers q = hdr tok \<and> attached_from hdr (spec_next_token tok res) xs)"


text \<open>
  The invariant of the loop: every request made so far carries the headers that line 86
  gives for the token held when it was made, and the global \<open>mcp_session_id\<close> is the token
  that the outcomes so far leave.
\<close>

definition token_inv :: "'w state \<Rightarrow> bool" where
  "token_inv s =
     (attached_from session_headers None (exchanges s)
      \<and> mcp_session_id s = spec_token_after (exchanges s))"

text \<open>The units that the handlers of lines 98 to 155 print for an outcome.\<close>

definition emitted :: "'w lib \<Rightarrow> pyval \<Rightarrow> post_result \<Rightarrow> string list" where
  "emitted L rid res =
     (case res of
        Returned r \<Rightarrow>
          if 400 \<le> status_code r
          then [json_dumps L (error_unit rid (- 32000)
                  (''HTTP '' @ str_int (status_code r) @ '': '' @ resp_text r))]
          else if resp_text r = [] then [] else [resp_text r]
      | Raised_Timeout e \<Rightarrow> [json_dumps L (error_unit rid (- 32000) ''Request timed out'')]
      | Raised_ConnectionError e \<Rightarrow>
          [json_dumps L (error_unit rid (- 32000)
             ''Connection error: Is the WhatsApp MCP server running?'')]
      | Raised_Exception e \<Rightarrow> [json_dumps L (error_unit rid (- 32000) e)])"

subsection \<open>Concrete runs\<close>



text \<open>
  The description of the \<^verbatim>\<open>ConnectionError\<close> that \<^verbatim>\<open>requests\<close> raises when the connection is
  refused (written without its quotation marks): it names the path of the URL. The run
  has debugging on and posts one request, which is refused.
\<close>

definition max_retries :: string where
  "max_retries = ''HTTPConnectionPool(host=localhost, port=8080): Max retries exceeded with url: /mcp/k3y (Caused by NewConnectionError: [Errno 111] Connection refused)''"

definition refused_run :: "ending \<times> post_result list state" where
  "refused_run =
     main demo_lib [''MCP_API_KEY'' \<mapsto> ''k3y'', ''MCP_DEBUG'' \<mapsto> ''1''] (ping @ nl)
       [Raised_ConnectionError max_retries]"


text \<open>
  A line of 100000 opening brackets, on which \<^verbatim>\<open>json.loads\<close> raises \<^verbatim>\<open>RecursionError\<close>, and the
  library that decodes it so.
\<close>

definition depth :: nat where
  "depth = 100000"

definition deep_line :: string where
  "deep_line = replicate depth (CHR ''['')"

definition deep_loads :: "string \<Rightarrow> loads_result" where
  "deep_loads t = (if t = deep_line then Other_Error RecursionError else demo_loads t)"

definition deep_lib :: "post_result list lib" where
  "deep_lib = demo_lib\<lparr>json_loads := deep_loads\<rparr>"

section \<open>Properties\<close>

subsection \<open>What each part of the loop body changes\<close>

lemma stdin_log [simp]: "stdin (log C m s) = stdin s"
  by (simp add: log_def)

lemma stdin_print [simp]: "stdin (print u s) = stdin s"
  by (simp add: print_def)

lemma stdin_handle_response [simp]: "stdin (handle_response L C rid r s) = stdin s"
  by (simp add: handle_response_def Let_def split: option.splits)

lemma stdin_handle_outcome [simp]: "stdin (handle_outcome L C rid res s) = stdin s"
  by (simp add: handle_outcome_def split: post_result.splits)

lemma stdin_log_request [simp]: "stdin (log_request L C rid line s) = stdin s"
  by (simp add: log_request_def Let_def split: option.splits)

lemma stdin_forward [simp]: "stdin (forward L C rid line s) = stdin s"
  by (simp add: forward_def Let_def split: prod.splits)

lemma read_line_line [simp]: "fst (read_line C s) = fst (readline (stdin s))"
  by (simp add: read_line_def Let_def case_prod_beta)

lemma stdin_read_line [simp]: "stdin (snd (read_line C s)) = snd (readline (stdin s))"
  by (simp add: read_line_def Let_def case_prod_beta)

lemma log_fields [simp]:
  "stdout (log C m s) = stdout s"
  "exchanges (log C m s) = exchanges s"
  "mcp_session_id (log C m s) = mcp_session_id s"
  "world (log C m s) = world s"
  by (simp_all add: log_def)

lemma log_file_log_off [simp]: "\<not> DEBUG C \<Longrightarrow> log C m s = s"
  by (simp add: log_def)

lemma print_fields [simp]:
  "stdout (print u s) = stdout s @ [u]"
  "exchanges (print u s) = exchanges s"
  "mcp_session_id (print u s) = mcp_session_id s"
  "world (print u s) = world s"
  "log_file (print u s) = log_file s"
  by (simp_all add: print_def)

lemma read_line_fields [simp]:
  "stdout (snd (read_line C s)) = stdout s"
  "exchanges (snd (read_line C s)) = exchanges s"
  "mcp_session_id (snd (read_line C s)) = mcp_session_id s"
  "world (snd (read_line C s)) = world s"
  by (simp_all add: read_line_def Let_def case_prod_beta)

lemma log_request_fields [simp]:
  "stdout (log_request L C rid line s) = stdout s"
  "exchanges (log_request L C rid line s) = exchanges s"
  "mcp_session_id (log_request L C rid line s) = mcp_session_id s"
  "world (log_request L C rid line s) = world s"
  by (simp_all add: log_request_def Let_def split: option.splits)

lemma stdout_handle_response:
  "stdout (handle_response L C rid r s) = stdout s @ emitted L rid (Returned r)"
  by (simp add: handle_response_def emitted_def Let_def split: option.splits)

lemma stdout_handle_outcome:
  "stdout (handle_outcome L C rid res s) = stdout s @ emitted L rid res"
  by (cases res)
     (simp_all add: handle_outcome_def stdout_handle_response, simp_all add: emitted_def)

lemma exchanges_handle_outcome [simp]:
  "exchanges (handle_outcome L C rid res s) = exchanges s"
  by (cases res)
     (simp_all add: handle_outcome_def handle_response_def Let_def split: option.splits)

lemma mcp_session_id_handle_outcome:
  "mcp_session_id (handle_outcome L C rid res s) = spec_next_token (mcp_session_id s) res"
  by (cases res)
     (simp_all add: handle_outcome_def handle_response_def spec_next_token_def Let_def
        split: option.splits)

lemma forward_post:
  assumes "session_post L (world s) (build_request C (mcp_session_id s) line) = (res, w)"
  shows "stdout (forward L C rid line s) = stdout s @ emitted L rid res"
    and "exchanges (forward L C rid line s) =
           exchanges s @ [(build_request C (mcp_session_id s) line, res)]"
    and "mcp_session_id (forward L C rid line s) = spec_next_token (mcp_session_id s) res"
  using assms
  by (simp_all add: forward_def Let_def stdout_handle_outcome mcp_session_id_handle_outcome)

subsection \<open>The four ways through the loop body\<close>

lemma strip_Nil [simp]: "strip [] = []"
  by (simp add: strip_def)

lemma loop_body_eof:
  "fst (readline (stdin s)) = [] \<Longrightarrow>
     loop_body L C s = Break (log C ''EOF received, exiting'' (snd (read_line C s)))"
  by (simp add: loop_body_def case_prod_beta)

lemma loop_body_blank:
  "fst (readline (stdin s)) \<noteq> [] \<Longrightarrow> strip (fst (readline (stdin s))) = [] \<Longrightarrow>
     loop_body L C s = Continue (log C ''Empty line, continuing'' (snd (read_line C s)))"
  by (simp add: loop_body_def case_prod_beta)

lemma loop_body_raises:
  assumes "strip (fst (readline (stdin s))) = line" and "line \<noteq> []"
    and "extract_request_id L line = Inl e"
  shows "loop_body L C s = Raise e (snd (read_line C s))"
proof -
  from assms(1,2) have "fst (readline (stdin s)) \<noteq> []" by auto
  with assms show ?thesis
    by (simp add: loop_body_def case_prod_beta)
qed

lemma loop_body_forwards:
  assumes "strip (fst (readline (stdin s))) = line" and "line \<noteq> []"
    and "extract_request_id L line = Inr rid"
  shows "loop_body L C s = Continue (forward L C rid line (snd (read_line C s)))"
proof -
  from assms(1,2) have "fst (readline (stdin s)) \<noteq> []" by auto
  with assms show ?thesis
    by (simp add: loop_body_def case_prod_beta)
qed

lemma loop_body_post:
  assumes "strip (fst (readline (stdin s))) = line" and "line \<noteq> []"
    and "extract_request_id L line = Inr rid"
    and "session_post L (world s) (build_request C (mcp_session_id s) line) = (res, w)"
  shows "continues (loop_body L C s)"
    and "stdout (after (loop_body L C s)) = stdout s @ emitted L rid res"
    and "exchanges (after (loop_body L C s)) =
           exchanges s @ [(build_request C (mcp_session_id s) line, res)]"
    and "mcp_session_id (after (loop_body L C s)) = spec_next_token (mcp_session_id s) res"
proof -
  let ?s2 = "snd (read_line C s)"
  have lb: "loop_body L C s = Continue (forward L C rid line ?s2)"
    using assms(1-3) by (rule loop_body_forwards)
  have post: "session_post L (world ?s2) (build_request C (mcp_session_id ?s2) line) = (res, w)"
    using assms(4) by simp
  show "continues (loop_body L C s)"
    by (simp add: lb)
  show "stdout (after (loop_body L C s)) = stdout s @ emitted L rid res"
    using forward_post(1) [OF post] by (simp add: lb)
  show "exchanges (after (loop_body L C s)) =
           exchanges s @ [(build_request C (mcp_session_id s) line, res)]"
    using forward_post(2) [OF post] by (simp add: lb)
  show "mcp_session_id (after (loop_body L C s)) = spec_next_token (mcp_session_id s) res"
    using forward_post(3) [OF post] by (simp add: lb)
qed


text \<open>A pass ends in one of four shapes; a property of all four holds after every pass.\<close>

lemma loop_body_after_cases:
  assumes "\<And>m. P (log C m (snd (read_line C s)))"
    and "P (snd (read_line C s))"
    and "\<And>rid line. P (forward L C rid line (snd (read_line C s)))"
  shows "P (after (loop_body L C s))"
proof (cases "fst (readline (stdin s)) = []")
  case True
  then show ?thesis by (simp add: loop_body_eof assms(1))
next
  case raw: False
  show ?thesis
  proof (cases "strip (fst (readline (stdin s))) = []")
    case True
    with raw show ?thesis by (simp add: loop_body_blank assms(1))
  next
    case False
    show ?thesis
    proof (cases "extract_request_id L (strip (fst (readline (stdin s))))")
      case (Inl e)
      from loop_body_raises [OF refl False Inl] show ?thesis by (simp add: assms(2))
    next
      case (Inr rid)
      from loop_body_forwards [OF refl False Inr] show ?thesis by (simp add: assms(3))
    qed
  qed
qed

lemma while_loop_after_cases:
  "(\<And>s. P s \<Longrightarrow> P (after (loop_body L C s))) \<Longrightarrow>
   (\<And>s m. P s \<Longrightarrow> P (log C m s)) \<Longrightarrow> P s \<Longrightarrow> P (snd (while_loop L C s))"
proof (induction L C s rule: while_loop.induct)
  case (1 L C s)
  from "1.prems"(1) [OF "1.prems"(3)] have a: "P (after (loop_body L C s))" .
  show ?case
  proof (cases "loop_body L C s")
    case (Break s')
    with a show ?thesis by (simp add: while_loop.simps [of L C s] "1.prems"(2))
  next
    case (Continue s')
    with a have "P s'" by simp
    from "1.IH" [OF Continue "1.prems"(1,2) this] Continue show ?thesis
      by (simp add: while_loop.simps [of L C s])
  next
    case (Raise e s')
    with a show ?thesis by (simp add: while_loop.simps [of L C s])
  qed
qed

subsection \<open>Replies of the downstream server\<close>

lemmas demo_simps =
  initial_state_def demo_lib_def demo_config_def demo_post_def demo_loads_def demo_int_def
  extract_request_id_def build_request_def session_headers_def MCP_URL_def reply_def
  strip_def isspace_def nl_def ping_def pong_def






subsection \<open>Failures of the request\<close>





subsection \<open>The correlation identifier of an error unit\<close>

text \<open>
  When the line decodes to an object whose \<^verbatim>\<open>id\<close> is \<open>x\<close>, the error unit printed for the
  line carries the id \<open>x\<close>; when decoding the line raises \<^verbatim>\<open>JSONDecodeError\<close>, the error unit
  carries the id \<^verbatim>\<open>None\<close> (JSON null), and the line is forwarded all the same and the loop
  goes on.
\<close>

lemma error_unit_carries_extracted_id:
  assumes "strip (fst (readline (stdin s))) = line" and "line \<noteq> []"
    and "json_loads L line = Loaded (PyDict items) \<and> map_of items ''id'' = Some x \<and> rid = x
         \<or> json_loads L line = JSONDecodeError \<and> rid = PyNone"
    and "session_post L (world s) (build_request C (mcp_session_id s) line) = (res, w)"
    and "reports_failure res"
  shows "(\<exists>msg. stdout (after (loop_body L C s)) =
                   stdout s @
                   [json_dumps L
                      (PyDict [(''jsonrpc'', PyStr ''2.0''), (''id'', rid),
                               (''error'', PyDict [(''code'', PyInt (- 32000)),
                                                   (''message'', PyStr msg)])])])
         \<and> map (data \<circ> fst) (exchanges (after (loop_body L C s))) =
             map (data \<circ> fst) (exchanges s) @ [line]
         \<and> continues (loop_body L C s)"
proof -
  from assms(3) have ex: "extract_request_id L line = Inr rid"
    by (auto simp add: extract_request_id_def)
  note lb = loop_body_post [OF assms(1,2) ex assms(4)]
  from assms(5) have "\<exists>msg. emitted L rid res =
      [json_dumps L
         (PyDict [(''jsonrpc'', PyStr ''2.0''), (''id'', rid),
                  (''error'', PyDict [(''code'', PyInt (- 32000)), (''message'', PyStr msg)])])]"
    by (cases res; simp add: emitted_def error_unit_def; blast)
  with lb(2) have "\<exists>msg. stdout (after (loop_body L C s)) =
                   stdout s @
                   [json_dumps L
                      (PyDict [(''jsonrpc'', PyStr ''2.0''), (''id'', rid),
                               (''error'', PyDict [(''code'', PyInt (- 32000)),
                                                   (''message'', PyStr msg)])])]"
    by auto
  moreover have "map (data \<circ> fst) (exchanges (after (loop_body L C s))) =
             map (data \<circ> fst) (exchanges s) @ [line]"
    by (simp add: lb(3) build_request_def)
  ultimately show ?thesis using lb(1) by blast
qed

lemma readline_replicate:
  "c \<noteq> CHR 0x0A \<Longrightarrow> readline (replicate n c @ CHR 0x0A # r) = (replicate n c @ [CHR 0x0A], r)"
  by (induction n) simp_all

lemma strip_replicate:
  assumes "\<not> isspace c" and "0 < n"
  shows "strip (replicate n c @ [CHR 0x0A]) = replicate n c"
proof -
  from assms(2) obtain m where n: "n = Suc m"
    by (cases n) simp_all
  have nl: "isspace (CHR 0x0A)"
    by (simp add: isspace_def)
  have "dropWhile isspace (replicate n c @ [CHR 0x0A]) = replicate n c @ [CHR 0x0A]"
    by (simp add: n assms(1))
  moreover have "rev (replicate n c @ [CHR 0x0A]) = CHR 0x0A # replicate n c"
    by simp
  moreover have "dropWhile isspace (CHR 0x0A # replicate n c) = replicate n c"
    by (simp add: n nl assms(1))
  ultimately show ?thesis
    by (simp add: strip_def)
qed

text \<open>
  Claim C7 says that a line whose decoding fails is forwarded all the same. The script
  catches \<^verbatim>\<open>JSONDecodeError\<close> only (line 80), and \<^verbatim>\<open>json.loads\<close> also fails in other ways: on
  the line of 100000 opening brackets it raises \<^verbatim>\<open>RecursionError\<close>, which nothing catches.
  The script ends in that pass: it prints no unit, forwards nothing, and the next line
  stays unread.
\<close>

theorem undecodable_line_ends_the_process:
  "fst (main deep_lib [''MCP_API_KEY'' \<mapsto> ''k3y''] (deep_line @ nl @ ping @ nl)
          [Returned (reply 200 pong)]) = Uncaught RecursionError
   \<and> stdout (snd (main deep_lib [''MCP_API_KEY'' \<mapsto> ''k3y''] (deep_line @ nl @ ping @ nl)
          [Returned (reply 200 pong)])) = []
   \<and> length (exchanges (snd (main deep_lib [''MCP_API_KEY'' \<mapsto> ''k3y'']
          (deep_line @ nl @ ping @ nl) [Returned (reply 200 pong)]))) = 0
   \<and> stdin (snd (main deep_lib [''MCP_API_KEY'' \<mapsto> ''k3y''] (deep_line @ nl @ ping @ nl)
          [Returned (reply 200 pong)])) = ping @ nl"
proof -
  let ?C = "load_config [''MCP_API_KEY'' \<mapsto> ''k3y''] ''k3y'' 30"
  let ?s = "initial_state (deep_line @ nl @ ping @ nl) [Returned (reply 200 pong)]
              :: post_result list state"
  have off: "\<not> DEBUG ?C"
    by (simp add: load_config_def environ_get_def lower_def)
  have t: "py_int deep_lib (environ_get [''MCP_API_KEY'' \<mapsto> ''k3y''] ''MCP_TIMEOUT'' ''30'') = Some 30"
    by (simp add: deep_lib_def demo_lib_def demo_int_def environ_get_def)
  have m: "main deep_lib [''MCP_API_KEY'' \<mapsto> ''k3y''] (deep_line @ nl @ ping @ nl)
             [Returned (reply 200 pong)] = while_loop deep_lib ?C ?s"
    by (simp add: main_def t started_def off)
  have rl: "readline (stdin ?s) = (deep_line @ nl, ping @ nl)"
    by (simp add: initial_state_def deep_line_def nl_def readline_replicate)
  have st: "strip (fst (readline (stdin ?s))) = deep_line"
    unfolding rl by (simp add: deep_line_def nl_def depth_def strip_replicate isspace_def)
  have ne: "deep_line \<noteq> []"
    by (simp add: deep_line_def depth_def)
  have ex: "extract_request_id deep_lib deep_line = Inl RecursionError"
    by (simp add: extract_request_id_def deep_lib_def deep_loads_def)
  have lb: "loop_body deep_lib ?C ?s = Raise RecursionError (snd (read_line ?C ?s))"
    using st ne ex by (rule loop_body_raises)
  have w: "while_loop deep_lib ?C ?s = (Uncaught RecursionError, snd (read_line ?C ?s))"
    by (simp add: while_loop.simps [of deep_lib ?C ?s] lb)
  have a: "fst (main deep_lib [''MCP_API_KEY'' \<mapsto> ''k3y''] (deep_line @ nl @ ping @ nl)
          [Returned (reply 200 pong)]) = Uncaught RecursionError"
    by (simp only: m w fst_conv)
  have b: "stdout (snd (main deep_lib [''MCP_API_KEY'' \<mapsto> ''k3y''] (deep_line @ nl @ ping @ nl)
          [Returned (reply 200 pong)])) = []"
    by (simp only: m w snd_conv read_line_fields) (simp add: initial_state_def)
  have c: "length (exchanges (snd (main deep_lib [''MCP_API_KEY'' \<mapsto> ''k3y'']
          (deep_line @ nl @ ping @ nl) [Returned (reply 200 pong)]))) = 0"
    by (simp only: m w snd_conv read_line_fields) (simp add: initial_state_def)
  have d: "stdin (snd (main deep_lib [''MCP_API_KEY'' \<mapsto> ''k3y''] (deep_line @ nl @ ping @ nl)
          [Returned (reply 200 pong)])) = ping @ nl"
    by (simp only: m w snd_conv stdin_read_line rl)
  show ?thesis
    by (rule conjI [OF a conjI [OF b conjI [OF c d]]])
qed

subsection \<open>The body of the request\<close>

text \<open>
  Claim C2 says that the body of the request is the line exactly as it was read. The
  script strips the line first (line 70), so the claim fails on a line with white space
  around its text: the line of two spaces, \<open>ping\<close> and a newline is posted as \<open>ping\<close>, which
  is neither the line as read nor the line without its newline.
\<close>

theorem post_body_differs_from_line:
  "fst (readline (''  '' @ ping @ nl)) = ''  '' @ ping @ nl
   \<and> map (data \<circ> fst)
        (exchanges (snd (main demo_lib [''MCP_API_KEY'' \<mapsto> ''k3y''] (''  '' @ ping @ nl)
                           [Returned (reply 200 pong)]))) = [ping]
   \<and> ping \<noteq> ''  '' @ ping @ nl
   \<and> ping \<noteq> ''  '' @ ping"
  by code_simp

text \<open>
  Claim C2, amended. For every line read that is not empty after \<^verbatim>\<open>strip()\<close> and whose
  decoding does not end the pass with an uncaught exception, the pass makes exactly one
  request, and its body is the line with the white space at both ends (the newline
  included) removed. The body is the text read, never a new serialization of the decoded
  value.
\<close>

theorem post_body_is_stripped_line:
  assumes "fst (readline (stdin s)) = raw" and "strip raw \<noteq> []"
    and "extract_request_id L (strip raw) = Inr rid"
  shows "map (data \<circ> fst) (exchanges (after (loop_body L C s))) =
           map (data \<circ> fst) (exchanges s) @ [strip raw]"
proof -
  obtain res w where
    post: "session_post L (world s) (build_request C (mcp_session_id s) (strip raw)) = (res, w)"
    by (cases "session_post L (world s) (build_request C (mcp_session_id s) (strip raw))")
  from assms(1) have "strip (fst (readline (stdin s))) = strip raw"
    by simp
  from loop_body_post(3) [OF this assms(2,3) post] show ?thesis
    by (simp add: build_request_def)
qed

theorem post_body_is_stripped_line_witness:
  "fst (readline (stdin (initial_state (''  '' @ ping @ nl) [Returned (reply 200 pong)]))) =
     ''  '' @ ping @ nl
   \<and> strip (''  '' @ ping @ nl) = ping
   \<and> strip (''  '' @ ping @ nl) \<noteq> []
   \<and> extract_request_id demo_lib (strip (''  '' @ ping @ nl)) = Inr (PyInt 1)
   \<and> map (data \<circ> fst) (exchanges (after (loop_body demo_lib demo_config
        (initial_state (''  '' @ ping @ nl) [Returned (reply 200 pong)])))) = [ping]"
proof -
  let ?s = "initial_state (''  '' @ ping @ nl) [Returned (reply 200 pong)] :: post_result list state"
  have h1: "fst (readline (stdin ?s)) = ''  '' @ ping @ nl"
    by (simp add: demo_simps)
  have st: "strip (''  '' @ ping @ nl) = ping"
    by (simp add: demo_simps)
  have h2: "strip (''  '' @ ping @ nl) \<noteq> []"
    by (simp only: st) (simp add: ping_def)
  have h3: "extract_request_id demo_lib (strip (''  '' @ ping @ nl)) = Inr (PyInt 1)"
    by (simp only: st) (simp add: demo_simps)
  have "exchanges ?s = []"
    by (simp add: initial_state_def)
  with post_body_is_stripped_line [OF h1 h2 h3, of demo_config] st h1 h2 h3
  show ?thesis by simp
qed

subsection \<open>The session token\<close>


lemma token_inv_log [simp]: "token_inv (log C m s) = token_inv s"
  by (simp add: token_inv_def)

lemma token_inv_print [simp]: "token_inv (print u s) = token_inv s"
  by (simp add: token_inv_def)

lemma token_inv_read_line [simp]: "token_inv (snd (read_line C s)) = token_inv s"
  by (simp add: token_inv_def)









subsection \<open>Startup\<close>

text \<open>
  Claim C10. When \<^verbatim>\<open>MCP_TIMEOUT\<close> is set to a string on which \<^verbatim>\<open>int\<close> raises, the script ends
  with an uncaught \<^verbatim>\<open>ValueError\<close> at line 24, before the check of the credential at line 27:
  nothing is printed, no input is read and no request is made, whether the credential is
  set or not.
\<close>

theorem unparsable_timeout_raises_first:
  assumes "environ ''MCP_TIMEOUT'' = Some v" and "py_int L v = None"
  shows "main L environ inp w = (Uncaught ValueError, initial_state inp w)
         \<and> stdout (snd (main L environ inp w)) = []
         \<and> stdin (snd (main L environ inp w)) = inp
         \<and> exchanges (snd (main L environ inp w)) = []"
  using assms by (simp add: main_def environ_get_def initial_state_def)

theorem unparsable_timeout_raises_first_witness:
  "[''MCP_TIMEOUT'' \<mapsto> ''abc''] ''MCP_TIMEOUT'' = Some ''abc''
   \<and> py_int demo_lib ''abc'' = None
   \<and> [''MCP_TIMEOUT'' \<mapsto> ''abc''] ''MCP_API_KEY'' = None
   \<and> fst (main demo_lib [''MCP_TIMEOUT'' \<mapsto> ''abc''] (ping @ nl) []) = Uncaught ValueError
   \<and> stdout (snd (main demo_lib [''MCP_TIMEOUT'' \<mapsto> ''abc''] (ping @ nl) [])) = []"
proof -
  have h1: "[''MCP_TIMEOUT'' \<mapsto> ''abc''] ''MCP_TIMEOUT'' = Some ''abc''"
    by simp
  have h2: "py_int demo_lib ''abc'' = None"
    by (simp add: demo_lib_def demo_int_def)
  have h3: "[''MCP_TIMEOUT'' \<mapsto> ''abc''] ''MCP_API_KEY'' = None"
    by simp
  note c = unparsable_timeout_raises_first
         [where environ = "[''MCP_TIMEOUT'' \<mapsto> ''abc'']" and v = "''abc''" and L = demo_lib
            and inp = "ping @ nl" and w = "[]", OF h1 h2]
  from c have m: "main demo_lib [''MCP_TIMEOUT'' \<mapsto> ''abc''] (ping @ nl) [] =
      (Uncaught ValueError, initial_state (ping @ nl) [])"
    by (rule conjunct1)
  have e: "fst (main demo_lib [''MCP_TIMEOUT'' \<mapsto> ''abc''] (ping @ nl) []) = Uncaught ValueError"
    by (simp only: m fst_conv)
  from c have o: "stdout (snd (main demo_lib [''MCP_TIMEOUT'' \<mapsto> ''abc''] (ping @ nl) [])) = []"
    by (elim conjE)
  show ?thesis
    by (rule conjI [OF h1 conjI [OF h2 conjI [OF h3 conjI [OF e o]]]])
qed

text \<open>
  Claim C8 says that a missing credential always gives the one error unit. The timeout
  is parsed first (line 24), so with no credential and a timeout that \<^verbatim>\<open>int\<close> rejects the
  script ends with the uncaught \<^verbatim>\<open>ValueError\<close> and has printed nothing.
\<close>

theorem missing_credential_without_error_unit:
  "[''MCP_TIMEOUT'' \<mapsto> ''soon''] ''MCP_API_KEY'' = None
   \<and> fst (main demo_lib [''MCP_TIMEOUT'' \<mapsto> ''soon''] [] []) = Uncaught ValueError
   \<and> stdout (snd (main demo_lib [''MCP_TIMEOUT'' \<mapsto> ''soon''] [] [])) = []"
  by (simp add: main_def environ_get_def initial_state_def demo_lib_def demo_int_def)

text \<open>
  Claim C8, amended. When \<^verbatim>\<open>int\<close> accepts the timeout (the value of \<^verbatim>\<open>MCP_TIMEOUT\<close>, or the
  default \<^verbatim>\<open>30\<close>): if the credential is unset or empty, the script prints exactly one unit,
  the error unit with the id \<^verbatim>\<open>None\<close>, the code -32600 and the message that the credential
  is required, and exits with status 1, with no input read and no request made; if the
  credential is a non-empty string, the script prints nothing at startup and enters the
  loop.
\<close>

theorem missing_credential_reported:
  assumes "py_int L (environ_get environ ''MCP_TIMEOUT'' ''30'') = Some t"
  shows "(environ ''MCP_API_KEY'' = None \<or> environ ''MCP_API_KEY'' = Some [] \<longrightarrow>
            main L environ inp w =
              (Exit 1,
               (initial_state inp w)
                 \<lparr>stdout := [json_dumps L (error_unit PyNone (- 32600)
                                ''MCP_API_KEY environment variable is required'')]\<rparr>))
         \<and> (environ ''MCP_API_KEY'' = Some k \<and> k \<noteq> [] \<longrightarrow>
            main L environ inp w =
              while_loop L (load_config environ k t)
                (started (load_config environ k t) (initial_state inp w))
            \<and> stdout (started (load_config environ k t) (initial_state inp w)) = []
            \<and> stdin (started (load_config environ k t) (initial_state inp w)) = inp
            \<and> exchanges (started (load_config environ k t) (initial_state inp w)) = [])"
  using assms
  by (auto simp add: main_def Let_def print_def initial_state_def started_def)

theorem missing_credential_reported_witness:
  \<open>py_int demo_lib (environ_get Map.empty ''MCP_TIMEOUT'' ''30'') = Some 30
   \<and> (Map.empty :: string \<rightharpoonup> string) ''MCP_API_KEY'' = None
   \<and> main demo_lib Map.empty (ping @ nl) [] =
       (Exit 1,
        (initial_state (ping @ nl) [])
          \<lparr>stdout := [''{"jsonrpc": "2.0", "id": null, "error": {"code": -32600, "message": "MCP_API_KEY environment variable is required"}}'']\<rparr>)
   \<and> py_int demo_lib (environ_get [''MCP_API_KEY'' \<mapsto> ''k3y''] ''MCP_TIMEOUT'' ''30'') = Some 30
   \<and> [''MCP_API_KEY'' \<mapsto> ''k3y''] ''MCP_API_KEY'' = Some ''k3y''
   \<and> ''k3y'' \<noteq> []
   \<and> main demo_lib [''MCP_API_KEY'' \<mapsto> ''k3y''] (ping @ nl) [] =
       while_loop demo_lib (load_config [''MCP_API_KEY'' \<mapsto> ''k3y''] ''k3y'' 30)
         (started (load_config [''MCP_API_KEY'' \<mapsto> ''k3y''] ''k3y'' 30)
            (initial_state (ping @ nl) []))
   \<and> stdout (started (load_config [''MCP_API_KEY'' \<mapsto> ''k3y''] ''k3y'' 30)
              (initial_state (ping @ nl) ([] :: post_result list))) = []\<close>
proof -
  have a1: "py_int demo_lib (environ_get Map.empty ''MCP_TIMEOUT'' ''30'') = Some 30"
    by (simp add: environ_get_def demo_lib_def demo_int_def)
  have a2: "(Map.empty :: string \<rightharpoonup> string) ''MCP_API_KEY'' = None"
    by simp
  have d: \<open>json_dumps demo_lib (error_unit PyNone (- 32600)
              ''MCP_API_KEY environment variable is required'') =
           ''{"jsonrpc": "2.0", "id": null, "error": {"code": -32600, "message": "MCP_API_KEY environment variable is required"}}''\<close>
    by (simp add: demo_lib_def error_unit_def quoted_def str_int.simps)
  have a: \<open>main demo_lib Map.empty (ping @ nl) [] =
       (Exit 1,
        (initial_state (ping @ nl) [])
          \<lparr>stdout := [''{"jsonrpc": "2.0", "id": null, "error": {"code": -32600, "message": "MCP_API_KEY environment variable is required"}}'']\<rparr>)\<close>
    using missing_credential_reported
            [where environ = Map.empty and L = demo_lib and inp = "ping @ nl" and w = "[]"
               and t = 30, OF a1] a2
    by (simp only: d) simp
  have b1: "py_int demo_lib (environ_get [''MCP_API_KEY'' \<mapsto> ''k3y''] ''MCP_TIMEOUT'' ''30'') = Some 30"
    by (simp add: environ_get_def demo_lib_def demo_int_def)
  have b2: "[''MCP_API_KEY'' \<mapsto> ''k3y''] ''MCP_API_KEY'' = Some ''k3y''"
    by simp
  have b3: "''k3y'' \<noteq> []"
    by simp
  have b: "main demo_lib [''MCP_API_KEY'' \<mapsto> ''k3y''] (ping @ nl) [] =
       while_loop demo_lib (load_config [''MCP_API_KEY'' \<mapsto> ''k3y''] ''k3y'' 30)
         (started (load_config [''MCP_API_KEY'' \<mapsto> ''k3y''] ''k3y'' 30)
            (initial_state (ping @ nl) []))
     \<and> stdout (started (load_config [''MCP_API_KEY'' \<mapsto> ''k3y''] ''k3y'' 30)
              (initial_state (ping @ nl) ([] :: post_result list))) = []"
    using missing_credential_reported
            [where environ = "[''MCP_API_KEY'' \<mapsto> ''k3y'']" and L = demo_lib and k = "''k3y''"
               and inp = "ping @ nl" and w = "[]" and t = 30, OF b1] b2 b3
    by simp
  from a1 a2 a b1 b2 b3 b show ?thesis
    by (intro conjI) (simp_all only: simp_thms)
qed

subsection \<open>A line that is JSON but no object\<close>

text \<open>
  The loop is left by \<^verbatim>\<open>break\<close> only at the end of the input, and at the end of the input
  the script exits with status 0 and has printed nothing more.
\<close>

lemma readline_Nil_iff: "fst (readline t) = [] \<longleftrightarrow> t = []"
  by (cases t) (auto split: prod.splits)

lemma loop_breaks_only_at_end_of_input:
  "loop_body L C s = Break s' \<Longrightarrow> stdin s = []"
  by (auto simp add: loop_body_def case_prod_beta readline_Nil_iff split: if_splits sum.splits)

lemma end_of_input_exits_cleanly:
  assumes "stdin s = []"
  shows "fst (while_loop L C s) = Exit 0"
    and "stdout (snd (while_loop L C s)) = stdout s"
    and "exchanges (snd (while_loop L C s)) = exchanges s"
  using assms by (simp_all add: while_loop.simps [of L C s] loop_body_eof)

text \<open>
  Claim C1 says that no line ends the process. The script reads the id with
  \<^verbatim>\<open>req_json.get("id")\<close> outside the \<^verbatim>\<open>try\<close> of the request, and the \<^verbatim>\<open>try\<close> around it catches
  \<^verbatim>\<open>JSONDecodeError\<close> only. On the input of the line \<^verbatim>\<open>[1]\<close> followed by the request \<open>ping\<close>,
  the script ends with an uncaught \<^verbatim>\<open>AttributeError\<close> in the first pass: it prints nothing,
  makes no request, and the second line stays unread.
\<close>

theorem non_object_line_ends_the_process:
  "fst (main demo_lib [''MCP_API_KEY'' \<mapsto> ''k3y''] (''[1]'' @ nl @ ping @ nl)
          [Returned (reply 200 pong)]) = Uncaught AttributeError
   \<and> stdout (snd (main demo_lib [''MCP_API_KEY'' \<mapsto> ''k3y''] (''[1]'' @ nl @ ping @ nl)
          [Returned (reply 200 pong)])) = []
   \<and> length (exchanges (snd (main demo_lib [''MCP_API_KEY'' \<mapsto> ''k3y''] (''[1]'' @ nl @ ping @ nl)
          [Returned (reply 200 pong)]))) = 0
   \<and> stdin (snd (main demo_lib [''MCP_API_KEY'' \<mapsto> ''k3y''] (''[1]'' @ nl @ ping @ nl)
          [Returned (reply 200 pong)])) = ping @ nl"
proof -
  have a: "fst (main demo_lib [''MCP_API_KEY'' \<mapsto> ''k3y''] (''[1]'' @ nl @ ping @ nl)
          [Returned (reply 200 pong)]) = Uncaught AttributeError"
    by code_simp
  have b: "stdout (snd (main demo_lib [''MCP_API_KEY'' \<mapsto> ''k3y''] (''[1]'' @ nl @ ping @ nl)
          [Returned (reply 200 pong)])) = []"
    by code_simp
  have c: "length (exchanges (snd (main demo_lib [''MCP_API_KEY'' \<mapsto> ''k3y'']
          (''[1]'' @ nl @ ping @ nl) [Returned (reply 200 pong)]))) = 0"
    by code_simp
  have d: "stdin (snd (main demo_lib [''MCP_API_KEY'' \<mapsto> ''k3y''] (''[1]'' @ nl @ ping @ nl)
          [Returned (reply 200 pong)])) = ping @ nl"
    by code_simp
  show ?thesis
    by (rule conjI [OF a conjI [OF b conjI [OF c d]]])
qed

subsection \<open>The log\<close>

lemma log_file_read_line: "\<not> DEBUG C \<Longrightarrow> log_file (snd (read_line C s)) = log_file s"
  by (simp add: read_line_def Let_def case_prod_beta)

lemma log_file_handle_outcome:
  assumes "\<not> DEBUG C"
  shows "log_file (handle_outcome L C rid res s) = log_file s"
  using assms
  by (cases res)
     (simp_all add: handle_outcome_def handle_response_def Let_def split: option.splits)

lemma log_request_off: "\<not> DEBUG C \<Longrightarrow> log_request L C rid line s = s"
  by (simp add: log_request_def Let_def split: option.splits)

lemma log_file_forward: "\<not> DEBUG C \<Longrightarrow> log_file (forward L C rid line s) = log_file s"
  by (simp add: forward_def Let_def case_prod_beta log_request_off log_file_handle_outcome)

text \<open>With debugging off, no pass of the loop and no run of the script writes to the log.\<close>

lemma debug_off_while_loop:
  assumes "\<not> DEBUG C"
  shows "log_file (snd (while_loop L C s)) = log_file s"
proof (rule while_loop_after_cases [where P = "\<lambda>s'. log_file s' = log_file s"])
  fix s' :: "'a state"
  assume a: "log_file s' = log_file s"
  show "log_file (after (loop_body L C s')) = log_file s"
    by (rule loop_body_after_cases [where P = "\<lambda>s'. log_file s' = log_file s"])
       (simp_all add: a assms log_file_read_line log_file_forward)
next
  fix s' :: "'a state" and m
  assume "log_file s' = log_file s"
  then show "log_file (log C m s') = log_file s"
    by (simp add: assms)
next
  show "log_file s = log_file s" ..
qed

lemma debug_off_nothing_logged:
  assumes "lower (environ_get environ ''MCP_DEBUG'' []) \<notin> set [''1'', ''true'', ''yes'']"
  shows "log_file (snd (main L environ inp w)) = []"
proof -
  have off: "\<not> DEBUG (load_config environ k t)" for k t
    using assms by (simp add: load_config_def)
  show ?thesis
    by (simp add: main_def Let_def off debug_off_while_loop started_def initial_state_def
          print_def split: option.splits)
qed

text \<open>
  Claim C9 says that no line of the log shows the credential. The script masks the
  credential in the one line that logs the URL (line 51), but line 141 logs a
  \<^verbatim>\<open>ConnectionError\<close> as it is, and \<^verbatim>\<open>requests\<close> names the URL path of the request, which ends in
  the credential, in the description of that error. With debugging on and the credential
  \<^verbatim>\<open>k3y\<close>, a refused connection puts the credential into the log.
\<close>

theorem connection_error_log_shows_credential:
  "log_file (snd refused_run) ! 6 = ''Connection error: '' @ max_retries
   \<and> contains (log_file (snd refused_run) ! 6) ''k3y''"
proof -
  have a: "log_file (snd refused_run) ! 6 = ''Connection error: '' @ max_retries"
    unfolding refused_run_def by code_simp
  have b: "contains (''Connection error: '' @ max_retries) ''k3y''"
    by code_simp
  show ?thesis
    by (rule conjI [OF a]) (simp only: a b)
qed

end
